theory Spec2Isabelle
  imports Main
begin

section \<open>Errors\<close>

text \<open>
  Go errors as values. \<open>Error msg\<close> is \<^verbatim>\<open>bosherr.Error(msg)\<close> and \<^verbatim>\<open>fmt.Errorf(msg)\<close>;
  \<open>WrapError cause msg\<close> is \<^verbatim>\<open>bosherr.WrapError(cause, msg)\<close>, and
  \<^verbatim>\<open>bosherr.WrapErrorf(cause, fmt, args)\<close> with the message already formatted.
  Errors coming back from an injected collaborator are arbitrary values of this type.
\<close>

datatype error = Error string | WrapError error string

section \<open>Settings and user data\<close>

text \<open>
  Modelled from the spec: the declaration of \<^verbatim>\<open>boshsettings.Network\<close> is missing. A
  network specification has a type (\<open>manual\<close>, \<open>dynamic\<close> or \<open>vip\<close>), IP, netmask,
  gateway, an optional MAC, ordered DNS servers and the marker of what it is the
  default for; the field names are the ones the sources use. A field left out of a
  Go literal has its zero value.
\<close>

record Network =
  Type :: string
  IP :: string
  Netmask :: string
  Gateway :: string
  Default :: "string list"
  DNS :: "string list"
  Mac :: string

text \<open>\<^verbatim>\<open>boshsettings.Networks\<close> is \<^verbatim>\<open>map[string]Network\<close>.\<close>

type_synonym Networks = "string \<rightharpoonup> Network"

text \<open>
  Modelled from the spec: the constant \<^verbatim>\<open>boshsettings.NetworkTypeDynamic\<close> is missing;
  the type of a dynamic network is written \<open>dynamic\<close>, as in the test suite.
\<close>

definition NetworkTypeDynamic :: string where
  "NetworkTypeDynamic = ''dynamic''"

definition zeroNetwork :: Network where
  "zeroNetwork = \<lparr>Type = [], IP = [], Netmask = [], Gateway = [], Default = [], DNS = [], Mac = []\<rparr>"

text \<open>
  Modelled from the spec: the declaration of \<^verbatim>\<open>UserDataContentsType\<close> is missing. The
  user-data document holds a server name, a registry endpoint with an optional list
  of nameservers, and a nested network specification; the fields stand for
  \<^verbatim>\<open>Server.Name\<close>, \<^verbatim>\<open>Registry.Endpoint\<close>, \<^verbatim>\<open>DNS.Nameserver\<close> and \<^verbatim>\<open>Networks\<close>.
\<close>

record UserDataContentsType =
  Server_Name :: string
  Registry_Endpoint :: string
  DNS_Nameserver :: "string list"
  Networks :: Networks

section \<open>Injected collaborators\<close>

text \<open>
  The service talks to the host through interfaces it is constructed with. Each is a
  record of functions over an abstract host state \<open>'w\<close>. Queries read the state;
  commands return the new state with their error result (\<open>None\<close> is Go's \<^verbatim>\<open>nil\<close>).
\<close>

record 'w FileSystem =
  ReadFile :: "string \<Rightarrow> 'w \<Rightarrow> error + string"
  WriteFile :: "string \<Rightarrow> string \<Rightarrow> 'w \<Rightarrow> error option \<times> 'w"

record 'w Platform =
  GetConfiguredNetworkInterfaces :: "'w \<Rightarrow> error + string list"
  SetupNetworking :: "Networks \<Rightarrow> 'w \<Rightarrow> error option \<times> 'w"
  GetFs :: "'w FileSystem"

record 'w DNSResolver =
  LookupHost :: "string list \<Rightarrow> string \<Rightarrow> 'w \<Rightarrow> error + string"

text \<open>
  An HTTP request as \<^verbatim>\<open>doGet\<close> builds it, and a response as \<^verbatim>\<open>doGet\<close> consumes it:
  what \<^verbatim>\<open>ioutil.ReadAll(resp.Body)\<close> yields and what \<^verbatim>\<open>resp.Body.Close()\<close> yields.
\<close>

record Request =
  Method :: string
  URL :: string
  Header :: "(string \<times> string) list"

record Response =
  Body_ReadAll :: "error + string"
  Body_Close :: "error option"

text \<open>
  The library functions the service calls: \<^verbatim>\<open>fmt.Sprintf("%x", sha1.Sum(url))\<close>,
  \<^verbatim>\<open>http.NewRequest\<close> (which fails on a URL it cannot parse), the retrying client
  of \<^verbatim>\<open>boshhttp.NewRetryClient(client, maxAttempts, retryDelay, logger).Do\<close>, and
  \<^verbatim>\<open>json.Unmarshal\<close> into a user-data document. They are parameters of the model.
\<close>

record 'w Lib =
  sha1_hex :: "string \<Rightarrow> string"
  http_NewRequest :: "string \<Rightarrow> string \<Rightarrow> error + Request"
  RetryClient_Do :: "nat \<Rightarrow> int \<Rightarrow> Request \<Rightarrow> 'w \<Rightarrow> (error + Response) \<times> 'w"
  json_Unmarshal :: "string \<Rightarrow> error + UserDataContentsType"

section \<open>Observable calls\<close>

text \<open>
  Every call the service makes on a collaborator is recorded, in order, so that
  statements like \<open>no HTTP request is made\<close> are statements about the record.
  Logger calls change no result and are not recorded.
\<close>

datatype event =
    EvGetConfiguredNetworkInterfaces
  | EvSetupNetworking Networks
  | EvReadFile string
  | EvWriteFile string string
  | EvHTTPDo Request
  | EvBodyReadAll
  | EvBodyClose
  | EvLookupHost "string list" string

record 'w st =
  world :: 'w
  trace :: "event list"

definition emit :: "event \<Rightarrow> 'w st \<Rightarrow> 'w st" where
  "emit ev s = s\<lparr>trace := trace s @ [ev]\<rparr>"

definition isHTTP :: "event \<Rightarrow> bool" where
  "isHTTP ev = (case ev of EvHTTPDo _ \<Rightarrow> True | _ \<Rightarrow> False)"

definition isWrite :: "event \<Rightarrow> bool" where
  "isWrite ev = (case ev of EvWriteFile _ _ \<Rightarrow> True | _ \<Rightarrow> False)"

definition isSetup :: "event \<Rightarrow> bool" where
  "isSetup ev = (case ev of EvSetupNetworking _ \<Rightarrow> True | _ \<Rightarrow> False)"

definition isLookup :: "event \<Rightarrow> bool" where
  "isLookup ev = (case ev of EvLookupHost _ _ \<Rightarrow> True | _ \<Rightarrow> False)"

text \<open>The calls made between two states: what the later trace adds to the earlier.\<close>

definition since :: "'w st \<Rightarrow> 'w st \<Rightarrow> event list" where
  "since s s' = drop (length (trace s)) (trace s')"

section \<open>The HTTP metadata service\<close>

record 'w httpMetadataService =
  metadataHost :: string
  metadataHeaders :: "(string \<times> string) list"
  userdataPath :: string
  instanceIDPath :: string
  sshKeysPath :: string
  resolver :: "'w DNSResolver"
  platform :: "'w Platform"
  logTag :: string
  retryDelay :: int

definition Load :: "'w httpMetadataService \<Rightarrow> error option" where
  "Load ms = None"

definition IsAvailable :: "'w httpMetadataService \<Rightarrow> bool" where
  "IsAvailable ms = True"

text \<open>The network the ensure step synthesizes: \<^verbatim>\<open>{"eth0": {Type: NetworkTypeDynamic}}\<close>.\<close>

definition minimalNetworks :: Networks where
  "minimalNetworks = [''eth0'' \<mapsto> zeroNetwork\<lparr>Type := NetworkTypeDynamic\<rparr>]"

definition ensureMinimalNetworkSetup :: "'w httpMetadataService \<Rightarrow> 'w st \<Rightarrow> error option \<times> 'w st" where
  "ensureMinimalNetworkSetup ms s =
     (let s1 = emit EvGetConfiguredNetworkInterfaces s in
      case GetConfiguredNetworkInterfaces (platform ms) (world s1) of
        Inl err \<Rightarrow> (Some (WrapError err ''Getting configured network interfaces''), s1)
      | Inr configuredInterfaces \<Rightarrow>
          if length configuredInterfaces = 0 then
            (let s2 = emit (EvSetupNetworking minimalNetworks) s1 in
             case SetupNetworking (platform ms) minimalNetworks (world s2) of
               (Some err, w) \<Rightarrow> (Some (WrapError err ''Setting up initial DHCP network''), s2\<lparr>world := w\<rparr>)
             | (None, w) \<Rightarrow> (None, s2\<lparr>world := w\<rparr>))
          else (None, s1))"

definition cachePathOf :: "'w Lib \<Rightarrow> string \<Rightarrow> string" where
  "cachePathOf lib url = ''/var/vcap/bosh/http-metadata-service-'' @ sha1_hex lib url"

text \<open>\<^verbatim>\<open>req.Header.Add(key, value)\<close>, for each entry of the configured headers.\<close>

definition Header_Add :: "string \<times> string \<Rightarrow> Request \<Rightarrow> Request" where
  "Header_Add kv req = req\<lparr>Header := Header req @ [kv]\<rparr>"

text \<open>
  \<^verbatim>\<open>doGet\<close>. The deferred \<^verbatim>\<open>resp.Body.Close()\<close> runs on every return after the
  request succeeded; its error is only logged.
\<close>

definition doGet :: "'w Lib \<Rightarrow> 'w httpMetadataService \<Rightarrow> string \<Rightarrow> 'w st \<Rightarrow> (error + string) \<times> 'w st" where
  "doGet lib ms url s =
     (let cachePath = cachePathOf lib url;
          s1 = emit (EvReadFile cachePath) s in
      case ReadFile (GetFs (platform ms)) cachePath (world s1) of
        Inr cachedRespBytes \<Rightarrow> (Inr cachedRespBytes, s1)
      | Inl _ \<Rightarrow>
          (case http_NewRequest lib ''GET'' url of
             Inl err \<Rightarrow> (Inl err, s1)
           | Inr req0 \<Rightarrow>
               (let req = fold Header_Add (metadataHeaders ms) req0;
                    s2 = emit (EvHTTPDo req) s1 in
                case RetryClient_Do lib 10 (retryDelay ms) req (world s2) of
                  (Inl err, w) \<Rightarrow> (Inl err, s2\<lparr>world := w\<rparr>)
                | (Inr resp, w) \<Rightarrow>
                    (let s3 = emit EvBodyReadAll (s2\<lparr>world := w\<rparr>) in
                     case Body_ReadAll resp of
                       Inl err \<Rightarrow>
                         (Inl (WrapError err ''Reading user data response body''), emit EvBodyClose s3)
                     | Inr respBytes \<Rightarrow>
                         (let s4 = emit (EvWriteFile cachePath respBytes) s3 in
                          case WriteFile (GetFs (platform ms)) cachePath respBytes (world s4) of
                            (Some err, w') \<Rightarrow>
                              (Inl (WrapError err ''Caching response body''),
                               emit EvBodyClose (s4\<lparr>world := w'\<rparr>))
                          | (None, w') \<Rightarrow>
                              (Inr respBytes, emit EvBodyClose (s4\<lparr>world := w'\<rparr>)))))))"

definition GetPublicKey :: "'w Lib \<Rightarrow> 'w httpMetadataService \<Rightarrow> 'w st \<Rightarrow> (error + string) \<times> 'w st" where
  "GetPublicKey lib ms s =
     (if sshKeysPath ms = [] then (Inr [], s)
      else
        case ensureMinimalNetworkSetup ms s of
          (Some err, s1) \<Rightarrow> (Inl err, s1)
        | (None, s1) \<Rightarrow>
            (let url = metadataHost ms @ sshKeysPath ms in
             case doGet lib ms url s1 of
               (Inl err, s2) \<Rightarrow> (Inl (WrapError err (''Getting open ssh key from url '' @ url)), s2)
             | (Inr respBytes, s2) \<Rightarrow> (Inr respBytes, s2)))"

definition GetInstanceID :: "'w Lib \<Rightarrow> 'w httpMetadataService \<Rightarrow> 'w st \<Rightarrow> (error + string) \<times> 'w st" where
  "GetInstanceID lib ms s =
     (if instanceIDPath ms = [] then (Inr [], s)
      else
        case ensureMinimalNetworkSetup ms s of
          (Some err, s1) \<Rightarrow> (Inl err, s1)
        | (None, s1) \<Rightarrow>
            (let url = metadataHost ms @ instanceIDPath ms in
             case doGet lib ms url s1 of
               (Inl err, s2) \<Rightarrow> (Inl (WrapError err (''Getting instance id from url '' @ url)), s2)
             | (Inr respBytes, s2) \<Rightarrow> (Inr respBytes, s2)))"

definition GetValueAtPath :: "'w Lib \<Rightarrow> 'w httpMetadataService \<Rightarrow> string \<Rightarrow> 'w st \<Rightarrow> (error + string) \<times> 'w st" where
  "GetValueAtPath lib ms path s =
     (if path = [] then (Inl (Error ''Can not retrieve metadata value for empthy path''), s)
      else
        case ensureMinimalNetworkSetup ms s of
          (Some err, s1) \<Rightarrow> (Inl err, s1)
        | (None, s1) \<Rightarrow>
            (let url = metadataHost ms @ path in
             case doGet lib ms url s1 of
               (Inl err, s2) \<Rightarrow> (Inl (WrapError err (''Getting value from url '' @ url)), s2)
             | (Inr respBytes, s2) \<Rightarrow> (Inr respBytes, s2)))"

definition getUserData :: "'w Lib \<Rightarrow> 'w httpMetadataService \<Rightarrow> 'w st \<Rightarrow> (error + UserDataContentsType) \<times> 'w st" where
  "getUserData lib ms s =
     (case ensureMinimalNetworkSetup ms s of
        (Some err, s1) \<Rightarrow> (Inl err, s1)
      | (None, s1) \<Rightarrow>
          (let userDataURL = metadataHost ms @ userdataPath ms in
           case doGet lib ms userDataURL s1 of
             (Inl err, s2) \<Rightarrow> (Inl (WrapError err (''Getting user data from url '' @ userDataURL)), s2)
           | (Inr respBytes, s2) \<Rightarrow>
               (case json_Unmarshal lib respBytes of
                  Inl err \<Rightarrow>
                    (Inl (WrapError err (''Unmarshalling user data '' @ [CHR 0x27] @ respBytes @ [CHR 0x27])), s2)
                | Inr userData \<Rightarrow> (Inr userData, s2))))"

definition GetServerName :: "'w Lib \<Rightarrow> 'w httpMetadataService \<Rightarrow> 'w st \<Rightarrow> (error + string) \<times> 'w st" where
  "GetServerName lib ms s =
     (case getUserData lib ms s of
        (Inl err, s1) \<Rightarrow> (Inl (WrapError err ''Getting user data''), s1)
      | (Inr userData, s1) \<Rightarrow>
          (let serverName = Server_Name userData in
           if length serverName = 0 then (Inl (Error ''Empty server name''), s1)
           else (Inr serverName, s1)))"

definition GetRegistryEndpoint :: "'w Lib \<Rightarrow> 'w httpMetadataService \<Rightarrow> 'w st \<Rightarrow> (error + string) \<times> 'w st" where
  "GetRegistryEndpoint lib ms s =
     (case getUserData lib ms s of
        (Inl err, s1) \<Rightarrow> (Inl (WrapError err ''Getting user data''), s1)
      | (Inr userData, s1) \<Rightarrow>
          (let endpoint = Registry_Endpoint userData;
               nameServers = DNS_Nameserver userData in
           if length nameServers > 0 then
             (let s2 = emit (EvLookupHost nameServers endpoint) s1 in
              case LookupHost (resolver ms) nameServers endpoint (world s2) of
                Inl err \<Rightarrow> (Inl (WrapError err ''Resolving registry endpoint''), s2)
              | Inr resolved \<Rightarrow> (Inr resolved, s2))
           else (Inr endpoint, s1)))"

definition GetNetworks :: "'w Lib \<Rightarrow> 'w httpMetadataService \<Rightarrow> 'w st \<Rightarrow> (error + Networks) \<times> 'w st" where
  "GetNetworks lib ms s =
     (case getUserData lib ms s of
        (Inl err, s1) \<Rightarrow> (Inl (WrapError err ''Getting user data''), s1)
      | (Inr userData, s1) \<Rightarrow> (Inr (Networks userData), s1))"

section \<open>What running the ensure step first means\<close>



section \<open>The network manager\<close>

text \<open>
  The metadata service reaches the network manager only through
  \<^verbatim>\<open>platform.SetupNetworking\<close>. The manager's implementation (\<^verbatim>\<open>centosNetManager\<close>)
  is not among the sources at hand; its test suite is. The definitions of this
  section follow the specification's description of \<^verbatim>\<open>SetupNetworking\<close>, stage by
  stage, and the test suite for paths and the restart command.
\<close>

text \<open>
  Modelled from the spec: a discovered interface has a name, a MAC address and a
  physical-versus-virtual flag. The discovery code is missing.
\<close>

record PhysicalInterface =
  IfaceName :: string
  IfaceMac :: string
  IsPhysical :: bool

text \<open>
  Modelled from the spec: an interface configuration has the interface name, the
  resolved static fields (IP, netmask, computed broadcast address, gateway) or the
  dynamic marker, and the ordered DNS list. The declaration is missing.
\<close>

datatype Addressing =
    StaticAddress string string string string
  | DynamicAddress

record InterfaceConfiguration =
  CfgName :: string
  CfgAddressing :: Addressing
  CfgDNS :: "string list"

text \<open>
  Modelled from the spec: a broadcast binding associates an interface name with a
  literal address (static) or a deferred resolver lookup (dynamic). The constructors
  carry the names the test suite builds its expected bindings with.
\<close>

datatype BroadcastBinding =
    SimpleInterfaceAddress string string
  | ResolvingInterfaceAddress string

text \<open>
  Modelled from the spec: the collaborators the missing \<^verbatim>\<open>centosNetManager\<close> is constructed with. The
  association rule (a pure function from specification and physical interfaces to
  bindings), the Interface Configuration Creator's \<^verbatim>\<open>Create(networkSpec, interfaceName)\<close>
  and the renderer of the distro's file bodies are parameters.
\<close>

record centosNetManager =
  associate :: "Networks \<Rightarrow> PhysicalInterface list \<Rightarrow> (string \<times> Network) list"
  Create :: "Network \<Rightarrow> string \<Rightarrow> error + InterfaceConfiguration"
  renderIfcfg :: "InterfaceConfiguration \<Rightarrow> string"
  renderDhclientConf :: "InterfaceConfiguration list \<Rightarrow> string"

text \<open>
  Modelled from the spec: the host as the missing manager code sees it, in the manner of the test
  suite's fakes: the device tree that discovery lists (or the listing's error), file
  bodies and symlink targets by path, the paths whose write or symlink fails, the
  restart command's failure, the commands run and the binding sets handed to the
  Address Broadcaster.
\<close>

record nethost =
  deviceTree :: "error + PhysicalInterface list"
  fileContents :: "string \<rightharpoonup> string"
  symlinkTargets :: "string \<rightharpoonup> string"
  WriteFileErrors :: "string \<rightharpoonup> error"
  SymlinkErrors :: "string \<rightharpoonup> error"
  restartError :: "error option"
  RunCommands :: "string list list"
  BroadcastMACAddresses :: "BroadcastBinding list list"

text \<open>
  The paths of the ifcfg files, of the shared DHCP client body and of the per-interface
  symlinks, and the restart command, as the test suite expects them.
\<close>

definition ifcfgPath :: "string \<Rightarrow> string" where
  "ifcfgPath iface = ''/etc/sysconfig/network-scripts/ifcfg-'' @ iface"

definition dhclientConfPath :: string where
  "dhclientConfPath = ''/etc/dhcp/dhclient.conf''"

definition dhclientSymlinkPath :: "string \<Rightarrow> string" where
  "dhclientSymlinkPath iface = ''/etc/dhcp/dhclient-'' @ iface @ ''.conf''"

definition restartCommand :: "string list" where
  "restartCommand = [''service'', ''network'', ''restart'']"

text \<open>
  Modelled from the spec: the missing manager's first step. The specification is partitioned into networks of type
  \<^verbatim>\<open>vip\<close>, ignored entirely, and the rest.
\<close>

definition nonVipNetworks :: "Networks \<Rightarrow> Networks" where
  "nonVipNetworks networks =
     (\<lambda>name. case networks name of
        None \<Rightarrow> None
      | Some n \<Rightarrow> if Type n = ''vip'' then None else Some n)"

text \<open>
  Modelled from the spec: the missing manager's configure stage invokes the Configuration Creator for
  each bound (interface, network) pair; the first validation failure aborts.
\<close>

fun createAll :: "centosNetManager \<Rightarrow> (string \<times> Network) list \<Rightarrow> error + InterfaceConfiguration list" where
  "createAll net [] = Inr []"
| "createAll net ((iface, n) # bs) =
     (case Create net n iface of
        Inl err \<Rightarrow> Inl err
      | Inr c \<Rightarrow>
          (case createAll net bs of
             Inl err \<Rightarrow> Inl err
           | Inr cs \<Rightarrow> Inr (c # cs)))"

text \<open>Modelled from the spec: a helper of the missing manager; a configuration is dynamic when it carries the dynamic marker.\<close>

definition isDynamic :: "InterfaceConfiguration \<Rightarrow> bool" where
  "isDynamic c = (case CfgAddressing c of DynamicAddress \<Rightarrow> True | StaticAddress _ _ _ _ \<Rightarrow> False)"

text \<open>
  Modelled from the spec: what the missing manager renders. The artifacts that carry content, as (path, body)
  pairs: one ifcfg file per interface configuration, and exactly one shared DHCP
  client body when at least one dynamic configuration exists.
\<close>

definition renderedArtifacts :: "centosNetManager \<Rightarrow> InterfaceConfiguration list \<Rightarrow> (string \<times> string) list" where
  "renderedArtifacts net configs =
     map (\<lambda>c. (ifcfgPath (CfgName c), renderIfcfg net c)) configs @
     (if filter isDynamic configs = [] then []
      else [(dhclientConfPath, renderDhclientConf net (filter isDynamic configs))])"

text \<open>
  Modelled from the spec: the missing manager's idempotent write. The would-be body is compared with
  the file's current body before writing; \<open>changed\<close> is true when they differ or the
  file does not exist. A failing write aborts with an error naming the path.
\<close>

definition convergeFileContents :: "string \<Rightarrow> string \<Rightarrow> nethost \<Rightarrow> error option \<times> bool \<times> nethost" where
  "convergeFileContents path body h =
     (let changed = (fileContents h path \<noteq> Some body) in
      case WriteFileErrors h path of
        Some err \<Rightarrow> (Some (WrapError err (''Writing to '' @ path)), False, h)
      | None \<Rightarrow> (None, changed, h\<lparr>fileContents := (fileContents h)(path \<mapsto> body)\<rparr>))"

text \<open>
  Modelled from the spec: the missing manager's write stage. A single \<open>network changed\<close> flag is tracked across all
  content artifacts; an I/O failure aborts immediately, and writes already performed
  remain.
\<close>

fun writeArtifacts :: "(string \<times> string) list \<Rightarrow> bool \<Rightarrow> nethost \<Rightarrow> error option \<times> bool \<times> nethost" where
  "writeArtifacts [] changed h = (None, changed, h)"
| "writeArtifacts ((path, body) # arts) changed h =
     (case convergeFileContents path body h of
        (Some err, _, h') \<Rightarrow> (Some err, changed, h')
      | (None, ch, h') \<Rightarrow> writeArtifacts arts (changed \<or> ch) h')"

text \<open>
  Modelled from the spec: the missing manager's symlink stage. Each DHCP-bound interface gets a symlink from its own path
  to the shared body's path. The test suite expects no restart when only the symlink
  is new, so a symlink does not set the flag.
\<close>

fun writeSymlinks :: "InterfaceConfiguration list \<Rightarrow> nethost \<Rightarrow> error option \<times> nethost" where
  "writeSymlinks [] h = (None, h)"
| "writeSymlinks (c # cs) h =
     (let link = dhclientSymlinkPath (CfgName c) in
      case SymlinkErrors h link of
        Some err \<Rightarrow> (Some (WrapError err (''Symlinking '' @ link)), h)
      | None \<Rightarrow> writeSymlinks cs (h\<lparr>symlinkTargets := (symlinkTargets h)(link \<mapsto> dhclientConfPath)\<rparr>))"

text \<open>
  Modelled from the spec: the missing manager's restart. The restart command is run once; its own failure
  surfaces verbatim.
\<close>

definition restartNetwork :: "nethost \<Rightarrow> error option \<times> nethost" where
  "restartNetwork h = (restartError h, h\<lparr>RunCommands := RunCommands h @ [restartCommand]\<rparr>)"

text \<open>
  Modelled from the spec: the missing manager's broadcast stage. One binding per configured interface, a literal address for
  a static configuration and a deferred lookup for a dynamic one. The broadcast
  itself runs concurrently and reports through an optional channel; the model
  records the binding set handed over.
\<close>

definition bindingOf :: "InterfaceConfiguration \<Rightarrow> BroadcastBinding" where
  "bindingOf c =
     (case CfgAddressing c of
        StaticAddress ip _ _ _ \<Rightarrow> SimpleInterfaceAddress (CfgName c) ip
      | DynamicAddress \<Rightarrow> ResolvingInterfaceAddress (CfgName c))"

definition broadcastMACAddresses :: "InterfaceConfiguration list \<Rightarrow> nethost \<Rightarrow> nethost" where
  "broadcastMACAddresses configs h =
     h\<lparr>BroadcastMACAddresses := BroadcastMACAddresses h @ [map bindingOf configs]\<rparr>"

text \<open>
  Modelled from the spec: the missing manager's stages up to the configuration records,
  \<open>discover \<rightarrow> associate \<rightarrow> configure\<close>. Only physical interfaces are eligible for
  association.
\<close>

definition interfaceConfigurations :: "centosNetManager \<Rightarrow> Networks \<Rightarrow> nethost \<Rightarrow> error + InterfaceConfiguration list" where
  "interfaceConfigurations net networks h =
     (case deviceTree h of
        Inl err \<Rightarrow> Inl (WrapError err ''Discovering network interfaces'')
      | Inr interfaces \<Rightarrow>
          (case createAll net (associate net (nonVipNetworks networks) (filter IsPhysical interfaces)) of
             Inl err \<Rightarrow> Inl (WrapError err ''Creating interface configurations'')
           | Inr configs \<Rightarrow> Inr configs))"

text \<open>
  Modelled from the spec: the missing \<^verbatim>\<open>SetupNetworking\<close> of the network manager,
  \<open>discover \<rightarrow> associate \<rightarrow> configure \<rightarrow> render and decide \<rightarrow> restart? \<rightarrow> broadcast\<close>,
  terminal on the first failure of a stage.
\<close>

definition centosSetupNetworking :: "centosNetManager \<Rightarrow> Networks \<Rightarrow> nethost \<Rightarrow> error option \<times> nethost" where
  "centosSetupNetworking net networks h =
     (case interfaceConfigurations net networks h of
        Inl err \<Rightarrow> (Some err, h)
      | Inr configs \<Rightarrow>
          (case writeArtifacts (renderedArtifacts net configs) False h of
             (Some err, _, h1) \<Rightarrow> (Some err, h1)
           | (None, changed, h1) \<Rightarrow>
               (case writeSymlinks (filter isDynamic configs) h1 of
                  (Some err, h2) \<Rightarrow> (Some err, h2)
                | (None, h2) \<Rightarrow>
                    (if changed then
                       (case restartNetwork h2 of
                          (Some err, h3) \<Rightarrow> (Some err, h3)
                        | (None, h3) \<Rightarrow> (None, broadcastMACAddresses configs h3))
                     else (None, broadcastMACAddresses configs h2)))))"

section \<open>Test doubles\<close>

text \<open>
  A concrete host for evaluating the service on: files by path, the answer of the
  interface query, the failures to inject, and the bodies the metadata endpoint
  serves by URL.
\<close>

record host =
  files :: "string \<rightharpoonup> string"
  ifaces :: "error + string list"
  setupError :: "error option"
  writeError :: "error option"
  served :: "string \<rightharpoonup> string"

definition fakeFs :: "host FileSystem" where
  "fakeFs =
     \<lparr>ReadFile = (\<lambda>p w. case files w p of None \<Rightarrow> Inl (Error ''file not found'') | Some b \<Rightarrow> Inr b),
      WriteFile = (\<lambda>p b w. case writeError w of
                      Some err \<Rightarrow> (Some err, w)
                    | None \<Rightarrow> (None, w\<lparr>files := (files w)(p \<mapsto> b)\<rparr>))\<rparr>"

definition fakePlatform :: "host Platform" where
  "fakePlatform =
     \<lparr>GetConfiguredNetworkInterfaces = ifaces,
      SetupNetworking = (\<lambda>nets w. case setupError w of
                      Some err \<Rightarrow> (Some err, w)
                    | None \<Rightarrow> (None, w\<lparr>ifaces := Inr [''eth0'']\<rparr>)),
      GetFs = fakeFs\<rparr>"

definition fakeResolver :: "host DNSResolver" where
  "fakeResolver = \<lparr>LookupHost = (\<lambda>ns h w. Inr ''http://10.0.0.7'')\<rparr>"

definition fakeUserData :: "string \<Rightarrow> error + UserDataContentsType" where
  "fakeUserData b =
     (if b = ''doc'' then
        Inr \<lparr>Server_Name = ''vm-1'', Registry_Endpoint = ''http://registry'',
             DNS_Nameserver = [''8.8.8.8''], Networks = minimalNetworks\<rparr>
      else if b = ''plain'' then
        Inr \<lparr>Server_Name = [], Registry_Endpoint = ''http://registry'',
             DNS_Nameserver = [], Networks = Map.empty\<rparr>
      else Inl (Error ''invalid character''))"

text \<open>The hash of the double is the identity: distinct URLs still get distinct paths.\<close>

definition fakeLib :: "host Lib" where
  "fakeLib =
     \<lparr>sha1_hex = (\<lambda>url. url),
      http_NewRequest = (\<lambda>m url. Inr \<lparr>Method = m, URL = url, Header = []\<rparr>),
      RetryClient_Do = (\<lambda>attempts delay req w. case served w (URL req) of
                      None \<Rightarrow> (Inl (Error ''connection refused''), w)
                    | Some b \<Rightarrow> (Inr \<lparr>Body_ReadAll = Inr b, Body_Close = None\<rparr>, w)),
      json_Unmarshal = fakeUserData\<rparr>"

definition fakeService :: "host httpMetadataService" where
  "fakeService =
     \<lparr>metadataHost = ''http://md'', metadataHeaders = [(''key'', ''value'')],
      userdataPath = ''/user-data'', instanceIDPath = ''/instanceid'', sshKeysPath = ''/ssh-keys'',
      resolver = fakeResolver, platform = fakePlatform, logTag = ''httpMetadataService'',
      retryDelay = 1000000000\<rparr>"

definition fakeHost :: host where
  "fakeHost =
     \<lparr>files = Map.empty, ifaces = Inr [], setupError = None, writeError = None,
      served = [''http://md/user-data'' \<mapsto> ''doc'', ''http://md/ssh-keys'' \<mapsto> ''ssh-rsa AAAA'',
                ''http://md/instanceid'' \<mapsto> ''i-1234'', ''http://md'' \<mapsto> ''doc'']\<rparr>"

definition start :: "'w \<Rightarrow> 'w st" where
  "start w = \<lparr>world = w, trace = []\<rparr>"

text \<open>
  A host whose cache already holds an entry for the SSH key URL, older than what the
  endpoint serves now.
\<close>

definition staleHost :: host where
  "staleHost = fakeHost\<lparr>files := [''/var/vcap/bosh/http-metadata-service-http://md/ssh-keys'' \<mapsto> ''ssh-rsa OLD'']\<rparr>"

text \<open>
  Hosts whose endpoint serves a document without a server name and without
  nameservers, serves something that is not a document, or serves nothing; and a
  service configured with an empty user-data path.
\<close>

definition plainHost :: host where
  "plainHost = fakeHost\<lparr>served := [''http://md/user-data'' \<mapsto> ''plain'']\<rparr>"

definition garbageHost :: host where
  "garbageHost = fakeHost\<lparr>served := [''http://md/user-data'' \<mapsto> ''<html>'']\<rparr>"

definition downHost :: host where
  "downHost = fakeHost\<lparr>served := Map.empty\<rparr>"

definition noUserdataService :: "host httpMetadataService" where
  "noUserdataService = fakeService\<lparr>userdataPath := []\<rparr>"




definition readOnlyHost :: host where
  "readOnlyHost = fakeHost\<lparr>writeError := Some (Error ''read-only file system'')\<rparr>"

text \<open>
  A manager double: a network is bound to the physical interface that carries its
  name; bodies are short stand-ins for the distro's templates.
\<close>

definition fakeNet :: centosNetManager where
  "fakeNet =
     \<lparr>associate = (\<lambda>nets ifs. concat (map (\<lambda>i. case nets (IfaceName i) of
                      None \<Rightarrow> [] | Some n \<Rightarrow> [(IfaceName i, n)]) ifs)),
      Create = (\<lambda>n iface.
                  if Type n = ''dynamic'' then
                    Inr \<lparr>CfgName = iface, CfgAddressing = DynamicAddress, CfgDNS = DNS n\<rparr>
                  else if Netmask n = ''not an ip'' then Inl (Error ''Invalid netmask'')
                  else Inr \<lparr>CfgName = iface,
                            CfgAddressing = StaticAddress (IP n) (Netmask n) [] (Gateway n),
                            CfgDNS = DNS n\<rparr>),
      renderIfcfg = (\<lambda>c. ''DEVICE='' @ CfgName c @ (if isDynamic c then '' dhcp'' else '' static'')),
      renderDhclientConf = (\<lambda>cs. ''# Generated by bosh-agent'')\<rparr>"

definition dhcpNetwork :: Network where
  "dhcpNetwork = zeroNetwork\<lparr>Type := ''dynamic'', Default := [''dns''], DNS := [''8.8.8.8'', ''9.9.9.9'']\<rparr>"

definition staticNetwork :: Network where
  "staticNetwork = zeroNetwork\<lparr>Type := ''manual'', IP := ''1.2.3.4'', Netmask := ''255.255.255.0'', Gateway := ''3.4.5.6''\<rparr>"

definition fakeNetworks :: Networks where
  "fakeNetworks = [''ethdhcp'' \<mapsto> dhcpNetwork, ''ethstatic'' \<mapsto> staticNetwork]"

definition fakeNethost :: nethost where
  "fakeNethost =
     \<lparr>deviceTree = Inr [\<lparr>IfaceName = ''ethstatic'', IfaceMac = ''aa'', IsPhysical = True\<rparr>,
                         \<lparr>IfaceName = ''ethdhcp'', IfaceMac = ''bb'', IsPhysical = True\<rparr>],
      fileContents = Map.empty, symlinkTargets = Map.empty,
      WriteFileErrors = Map.empty, SymlinkErrors = Map.empty, restartError = None,
      RunCommands = [], BroadcastMACAddresses = []\<rparr>"

text \<open>
  The configuration records the manager double derives for the two networks, the
  bodies a pass writes for them, and three hosts: one where those bodies are on
  disk already, one where the static interface's file is there with another body,
  and one where writing the DHCP interface's file fails.
\<close>

definition staticConfig :: InterfaceConfiguration where
  "staticConfig = \<lparr>CfgName = ''ethstatic'',
     CfgAddressing = StaticAddress ''1.2.3.4'' ''255.255.255.0'' [] ''3.4.5.6'', CfgDNS = []\<rparr>"

definition dhcpConfig :: InterfaceConfiguration where
  "dhcpConfig = \<lparr>CfgName = ''ethdhcp'', CfgAddressing = DynamicAddress, CfgDNS = [''8.8.8.8'', ''9.9.9.9'']\<rparr>"

definition writtenFiles :: "string \<rightharpoonup> string" where
  "writtenFiles =
     [''/etc/sysconfig/network-scripts/ifcfg-ethstatic'' \<mapsto> ''DEVICE=ethstatic static'',
      ''/etc/sysconfig/network-scripts/ifcfg-ethdhcp'' \<mapsto> ''DEVICE=ethdhcp dhcp'',
      ''/etc/dhcp/dhclient.conf'' \<mapsto> ''# Generated by bosh-agent'']"

definition convergedNethost :: nethost where
  "convergedNethost = fakeNethost\<lparr>fileContents := writtenFiles\<rparr>"

definition staleIfcfgNethost :: nethost where
  "staleIfcfgNethost =
     fakeNethost\<lparr>fileContents := writtenFiles(''/etc/sysconfig/network-scripts/ifcfg-ethstatic'' \<mapsto> ''DEVICE=ethstatic dhcp'')\<rparr>"

definition failingNethost :: nethost where
  "failingNethost =
     fakeNethost\<lparr>WriteFileErrors := [''/etc/sysconfig/network-scripts/ifcfg-ethdhcp'' \<mapsto> Error ''fs-write-file-error'']\<rparr>"




section \<open>Calls and traces\<close>

lemma since_append: "trace s' = trace s @ evs \<Longrightarrow> since s s' = evs"
  by (simp add: since_def)

lemma since_emit: "since s (emit ev s) = [ev]"
  by (simp add: since_def emit_def)

lemmas fake_defs =
  fakeService_def fakePlatform_def fakeFs_def fakeLib_def fakeResolver_def fakeUserData_def
  fakeHost_def start_def emit_def since_def cachePathOf_def Header_Add_def minimalNetworks_def
  ensureMinimalNetworkSetup_def doGet_def getUserData_def Let_def

lemmas host_defs = plainHost_def garbageHost_def downHost_def noUserdataService_def staleHost_def

text \<open>
  What each step adds to the trace: the ensure step starts with the interface query,
  \<^verbatim>\<open>doGet\<close> with the read of the cache file, and neither resolves a host name;
  \<^verbatim>\<open>doGet\<close> never sets up networking.
\<close>

lemma ensure_trace:
  "\<exists>evs. trace (snd (ensureMinimalNetworkSetup ms s)) = trace s @ EvGetConfiguredNetworkInterfaces # evs
     \<and> filter isLookup evs = []"
  by (auto simp: ensureMinimalNetworkSetup_def emit_def Let_def isLookup_def
      split: sum.splits prod.splits option.splits)

lemma doGet_trace:
  "\<exists>evs. trace (snd (doGet lib ms url s)) = trace s @ EvReadFile (cachePathOf lib url) # evs
     \<and> filter isLookup evs = [] \<and> filter isSetup evs = []"
  by (auto simp: doGet_def emit_def Let_def isLookup_def isSetup_def
      split: sum.splits prod.splits option.splits)

lemma getUserData_trace:
  "\<exists>evs. trace (snd (getUserData lib ms s)) = trace s @ EvGetConfiguredNetworkInterfaces # evs
     \<and> filter isLookup evs = []"
proof (cases "ensureMinimalNetworkSetup ms s")
  case (Pair e s1)
  obtain evs where e1: "trace s1 = trace s @ EvGetConfiguredNetworkInterfaces # evs" "filter isLookup evs = []"
    using ensure_trace [of ms s] Pair by auto
  show ?thesis
  proof (cases e)
    case (Some err)
    then show ?thesis using Pair e1 by (simp add: getUserData_def)
  next
    case None
    obtain r s2 where d: "doGet lib ms (metadataHost ms @ userdataPath ms) s1 = (r, s2)"
      by (cases "doGet lib ms (metadataHost ms @ userdataPath ms) s1")
    obtain evs2 where e2: "trace s2 = trace s1 @ EvReadFile (cachePathOf lib (metadataHost ms @ userdataPath ms)) # evs2"
        "filter isLookup evs2 = []"
      using doGet_trace [of lib ms "metadataHost ms @ userdataPath ms" s1] d by auto
    have "snd (getUserData lib ms s) = s2"
      using Pair None d by (simp add: getUserData_def Let_def split: sum.splits)
    then show ?thesis using e1 e2 by (simp add: isLookup_def)
  qed
qed

section \<open>The ensure step\<close>
















section \<open>Empty paths\<close>

text \<open>
  C9. \<^verbatim>\<open>GetValueAtPath\<close> with the empty path returns the error at once: the state
  comes back as it was, so no ensure step, no HTTP request and no cache access took
  place. With a non-empty path it is the ensure step followed, when that succeeds,
  by \<^verbatim>\<open>doGet\<close> of host and path: the first call it makes is the interface query, and
  its calls are those of the ensure step followed by those of \<^verbatim>\<open>doGet\<close>.
\<close>

theorem GetValueAtPath_empty_path:
  "GetValueAtPath lib ms [] s = (Inl (Error ''Can not retrieve metadata value for empthy path''), s)
   \<and> since s (snd (GetValueAtPath lib ms [] s)) = []
   \<and> (path \<noteq> [] \<longrightarrow>
        GetValueAtPath lib ms path s =
          (case ensureMinimalNetworkSetup ms s of
             (Some err, s1) \<Rightarrow> (Inl err, s1)
           | (None, s1) \<Rightarrow>
               (case doGet lib ms (metadataHost ms @ path) s1 of
                  (Inl err, s2) \<Rightarrow> (Inl (WrapError err (''Getting value from url '' @ metadataHost ms @ path)), s2)
                | (Inr respBytes, s2) \<Rightarrow> (Inr respBytes, s2)))
        \<and> take 1 (since s (snd (GetValueAtPath lib ms path s))) = [EvGetConfiguredNetworkInterfaces]
        \<and> (fst (ensureMinimalNetworkSetup ms s) = None \<longrightarrow>
             since s (snd (GetValueAtPath lib ms path s)) =
               since s (snd (ensureMinimalNetworkSetup ms s)) @
               since (snd (ensureMinimalNetworkSetup ms s))
                 (snd (doGet lib ms (metadataHost ms @ path) (snd (ensureMinimalNetworkSetup ms s))))))"
proof -
  have empty: "GetValueAtPath lib ms [] s = (Inl (Error ''Can not retrieve metadata value for empthy path''), s)"
    by (simp add: GetValueAtPath_def)
  have none: "since s (snd (GetValueAtPath lib ms [] s)) = []"
    by (simp add: empty since_def)
  {
    assume ne: "path \<noteq> []"
    obtain e s1 where en: "ensureMinimalNetworkSetup ms s = (e, s1)"
      by (cases "ensureMinimalNetworkSetup ms s")
    obtain evs where e1: "trace s1 = trace s @ EvGetConfiguredNetworkInterfaces # evs"
      using ensure_trace [of ms s] en by auto
    obtain r s2 where d: "doGet lib ms (metadataHost ms @ path) s1 = (r, s2)"
      by (cases "doGet lib ms (metadataHost ms @ path) s1")
    obtain evs2 where e2: "trace s2 = trace s1 @ EvReadFile (cachePathOf lib (metadataHost ms @ path)) # evs2"
      using doGet_trace [of lib ms "metadataHost ms @ path" s1] d by auto
    have eq: "GetValueAtPath lib ms path s =
          (case ensureMinimalNetworkSetup ms s of
             (Some err, s1) \<Rightarrow> (Inl err, s1)
           | (None, s1) \<Rightarrow>
               (case doGet lib ms (metadataHost ms @ path) s1 of
                  (Inl err, s2) \<Rightarrow> (Inl (WrapError err (''Getting value from url '' @ metadataHost ms @ path)), s2)
                | (Inr respBytes, s2) \<Rightarrow> (Inr respBytes, s2)))"
      using ne by (simp add: GetValueAtPath_def Let_def split: prod.splits option.splits)
    have fin: "snd (GetValueAtPath lib ms path s) = (if e = None then s2 else s1)"
      using en d by (cases e) (auto simp: eq split: sum.splits)
    have first: "take 1 (since s (snd (GetValueAtPath lib ms path s))) = [EvGetConfiguredNetworkInterfaces]"
      using e1 e2 by (simp add: fin since_def)
    have seq: "fst (ensureMinimalNetworkSetup ms s) = None \<longrightarrow>
             since s (snd (GetValueAtPath lib ms path s)) =
               since s (snd (ensureMinimalNetworkSetup ms s)) @
               since (snd (ensureMinimalNetworkSetup ms s))
                 (snd (doGet lib ms (metadataHost ms @ path) (snd (ensureMinimalNetworkSetup ms s))))"
      using e1 e2 by (simp add: fin en d since_def)
    note eq first seq
  }
  then show ?thesis using empty none by blast
qed


theorem GetValueAtPath_empty_path_witness:
  "''/instanceid'' \<noteq> []
   \<and> fst (ensureMinimalNetworkSetup fakeService (start fakeHost)) = None
   \<and> GetValueAtPath fakeLib fakeService [] (start fakeHost)
       = (Inl (Error ''Can not retrieve metadata value for empthy path''), start fakeHost)
   \<and> fst (GetValueAtPath fakeLib fakeService ''/instanceid'' (start fakeHost)) = Inr ''i-1234''
   \<and> take 1 (since (start fakeHost) (snd (GetValueAtPath fakeLib fakeService ''/instanceid'' (start fakeHost))))
       = [EvGetConfiguredNetworkInterfaces]"
proof -
  have ok: "fst (ensureMinimalNetworkSetup fakeService (start fakeHost)) = None"
    by (simp add: fake_defs)
  have v: "fst (GetValueAtPath fakeLib fakeService ''/instanceid'' (start fakeHost)) = Inr ''i-1234''"
    by (simp add: GetValueAtPath_def fake_defs)
  have ne: "''/instanceid'' \<noteq> []"
    by simp
  show ?thesis
    using ne ok v GetValueAtPath_empty_path [where path = "''/instanceid''" and lib = fakeLib
        and ms = fakeService and s = "start fakeHost"]
    by blast
qed


text \<open>
  The claim C3 as stated, for \<^verbatim>\<open>GetNetworks\<close>: with an empty user-data path the call
  would return an empty value and leave the state alone. On the double it runs the
  ensure step, requests the bare host over HTTP and returns the networks of the
  document served there.
\<close>

theorem GetNetworks_empty_path_counterexample:
  "\<not> (userdataPath noUserdataService = [] \<longrightarrow>
        GetNetworks fakeLib noUserdataService (start fakeHost) = (Inr Map.empty, start fakeHost))
   \<and> userdataPath noUserdataService = []
   \<and> fst (GetNetworks fakeLib noUserdataService (start fakeHost)) = Inr minimalNetworks
   \<and> minimalNetworks ''eth0'' \<noteq> None
   \<and> since (start fakeHost) (snd (GetNetworks fakeLib noUserdataService (start fakeHost)))
       = [EvGetConfiguredNetworkInterfaces, EvSetupNetworking minimalNetworks,
          EvReadFile ''/var/vcap/bosh/http-metadata-service-http://md'',
          EvHTTPDo \<lparr>Method = ''GET'', URL = ''http://md'', Header = [(''key'', ''value'')]\<rparr>,
          EvBodyReadAll,
          EvWriteFile ''/var/vcap/bosh/http-metadata-service-http://md'' ''doc'',
          EvBodyClose]"
proof -
  have e: "userdataPath noUserdataService = []"
    by (simp add: noUserdataService_def)
  have tr: "trace (snd (GetNetworks fakeLib noUserdataService (start fakeHost)))
       = [EvGetConfiguredNetworkInterfaces, EvSetupNetworking minimalNetworks,
          EvReadFile ''/var/vcap/bosh/http-metadata-service-http://md'',
          EvHTTPDo \<lparr>Method = ''GET'', URL = ''http://md'', Header = [(''key'', ''value'')]\<rparr>,
          EvBodyReadAll,
          EvWriteFile ''/var/vcap/bosh/http-metadata-service-http://md'' ''doc'',
          EvBodyClose]"
    by (simp add: GetNetworks_def getUserData_def ensureMinimalNetworkSetup_def doGet_def Let_def
        noUserdataService_def fakeService_def fakePlatform_def fakeFs_def fakeLib_def fakeUserData_def
        fakeHost_def start_def emit_def cachePathOf_def Header_Add_def)
  have s: "since (start fakeHost) (snd (GetNetworks fakeLib noUserdataService (start fakeHost)))
       = trace (snd (GetNetworks fakeLib noUserdataService (start fakeHost)))"
    by (simp add: since_def start_def)
  have v: "fst (GetNetworks fakeLib noUserdataService (start fakeHost)) = Inr minimalNetworks"
    by (simp add: GetNetworks_def getUserData_def ensureMinimalNetworkSetup_def doGet_def Let_def
        noUserdataService_def fakeService_def fakePlatform_def fakeFs_def fakeLib_def fakeUserData_def
        fakeHost_def start_def emit_def cachePathOf_def Header_Add_def)
  have ne: "minimalNetworks ''eth0'' \<noteq> None"
    by (simp add: minimalNetworks_def)
  have neq: "GetNetworks fakeLib noUserdataService (start fakeHost) \<noteq> (Inr Map.empty, start fakeHost)"
  proof
    assume "GetNetworks fakeLib noUserdataService (start fakeHost) = (Inr Map.empty, start fakeHost)"
    then have "trace (snd (GetNetworks fakeLib noUserdataService (start fakeHost))) = []"
      by (simp add: start_def)
    then show False by (simp add: tr)
  qed
  show ?thesis
    using e tr s v ne neq by simp
qed

text \<open>
  C3, amended. For \<^verbatim>\<open>GetPublicKey\<close> and \<^verbatim>\<open>GetInstanceID\<close>, an empty configured path
  gives the empty string and no error, with no call made (no ensure step, no HTTP
  request). \<^verbatim>\<open>GetNetworks\<close> has no such guard: whatever the user-data path is, it
  goes through \<^verbatim>\<open>getUserData\<close>, so its first call is the interface query of the ensure
  step, and it returns the document's networks or the failure wrapped as
  \<open>Getting user data\<close>.
\<close>

theorem empty_path_unsupported:
  "(sshKeysPath ms = [] \<longrightarrow>
      GetPublicKey lib ms s = (Inr [], s) \<and> since s (snd (GetPublicKey lib ms s)) = [])
   \<and> (instanceIDPath ms = [] \<longrightarrow>
      GetInstanceID lib ms s = (Inr [], s) \<and> since s (snd (GetInstanceID lib ms s)) = [])
   \<and> GetNetworks lib ms s =
       (case getUserData lib ms s of
          (Inl err, s1) \<Rightarrow> (Inl (WrapError err ''Getting user data''), s1)
        | (Inr userData, s1) \<Rightarrow> (Inr (Networks userData), s1))
   \<and> take 1 (since s (snd (GetNetworks lib ms s))) = [EvGetConfiguredNetworkInterfaces]"
proof -
  obtain evs where tr: "trace (snd (getUserData lib ms s)) = trace s @ EvGetConfiguredNetworkInterfaces # evs"
    using getUserData_trace [of lib ms s] by auto
  have n: "snd (GetNetworks lib ms s) = snd (getUserData lib ms s)"
    by (cases "getUserData lib ms s") (simp add: GetNetworks_def split: sum.splits)
  have first: "take 1 (since s (snd (GetNetworks lib ms s))) = [EvGetConfiguredNetworkInterfaces]"
    using tr by (simp add: n since_def)
  show ?thesis
    using first by (simp add: GetPublicKey_def GetInstanceID_def GetNetworks_def since_def)
qed

theorem empty_path_unsupported_witness:
  "sshKeysPath (fakeService\<lparr>sshKeysPath := []\<rparr>) = []
   \<and> GetPublicKey fakeLib (fakeService\<lparr>sshKeysPath := []\<rparr>) (start fakeHost) = (Inr [], start fakeHost)
   \<and> instanceIDPath (fakeService\<lparr>instanceIDPath := []\<rparr>) = []
   \<and> GetInstanceID fakeLib (fakeService\<lparr>instanceIDPath := []\<rparr>) (start fakeHost) = (Inr [], start fakeHost)
   \<and> take 1 (since (start fakeHost) (snd (GetNetworks fakeLib noUserdataService (start fakeHost))))
       = [EvGetConfiguredNetworkInterfaces]"
proof -
  have a: "sshKeysPath (fakeService\<lparr>sshKeysPath := []\<rparr>) = []"
    by simp
  have b: "instanceIDPath (fakeService\<lparr>instanceIDPath := []\<rparr>) = []"
    by simp
  show ?thesis
    using a b
      empty_path_unsupported [where ms = "fakeService\<lparr>sshKeysPath := []\<rparr>" and lib = fakeLib and s = "start fakeHost"]
      empty_path_unsupported [where ms = "fakeService\<lparr>instanceIDPath := []\<rparr>" and lib = fakeLib and s = "start fakeHost"]
      empty_path_unsupported [where ms = noUserdataService and lib = fakeLib and s = "start fakeHost"]
    by blast
qed

section \<open>User data accessors\<close>

text \<open>
  C7. \<^verbatim>\<open>GetServerName\<close> never succeeds with the empty string. When the parsed
  document's server name has length zero it returns the error \<open>Empty server name\<close>;
  otherwise it returns the name and no error. A failure of \<^verbatim>\<open>getUserData\<close>, be it
  of the fetch or of the parse, comes back wrapped as \<open>Getting user data\<close>.
\<close>

theorem GetServerName_empty_name_is_error:
  "fst (GetServerName lib ms s) \<noteq> Inr []
   \<and> (fst (getUserData lib ms s) = Inr userData \<and> length (Server_Name userData) = 0 \<longrightarrow>
        GetServerName lib ms s = (Inl (Error ''Empty server name''), snd (getUserData lib ms s)))
   \<and> (fst (getUserData lib ms s) = Inr userData \<and> length (Server_Name userData) \<noteq> 0 \<longrightarrow>
        GetServerName lib ms s = (Inr (Server_Name userData), snd (getUserData lib ms s)))
   \<and> (fst (getUserData lib ms s) = Inl err \<longrightarrow>
        GetServerName lib ms s = (Inl (WrapError err ''Getting user data''), snd (getUserData lib ms s)))
   \<and> (fst (ensureMinimalNetworkSetup ms s) = None
        \<and> fst (doGet lib ms (metadataHost ms @ userdataPath ms) (snd (ensureMinimalNetworkSetup ms s))) = Inl err \<longrightarrow>
        fst (GetServerName lib ms s) =
          Inl (WrapError (WrapError err (''Getting user data from url '' @ metadataHost ms @ userdataPath ms))
                 ''Getting user data''))
   \<and> (fst (ensureMinimalNetworkSetup ms s) = None
        \<and> fst (doGet lib ms (metadataHost ms @ userdataPath ms) (snd (ensureMinimalNetworkSetup ms s))) = Inr respBytes
        \<and> json_Unmarshal lib respBytes = Inl err \<longrightarrow>
        fst (GetServerName lib ms s) =
          Inl (WrapError (WrapError err (''Unmarshalling user data '' @ [CHR 0x27] @ respBytes @ [CHR 0x27]))
                 ''Getting user data''))"
proof -
  have never: "fst (GetServerName lib ms s) \<noteq> Inr []"
    by (cases "getUserData lib ms s") (auto simp: GetServerName_def Let_def split: sum.splits)
  have a: "fst (getUserData lib ms s) = Inr userData \<and> length (Server_Name userData) = 0 \<longrightarrow>
        GetServerName lib ms s = (Inl (Error ''Empty server name''), snd (getUserData lib ms s))"
    by (cases "getUserData lib ms s") (simp add: GetServerName_def Let_def)
  have b: "fst (getUserData lib ms s) = Inr userData \<and> length (Server_Name userData) \<noteq> 0 \<longrightarrow>
        GetServerName lib ms s = (Inr (Server_Name userData), snd (getUserData lib ms s))"
    by (cases "getUserData lib ms s") (simp add: GetServerName_def Let_def)
  have c: "fst (getUserData lib ms s) = Inl err \<longrightarrow>
        GetServerName lib ms s = (Inl (WrapError err ''Getting user data''), snd (getUserData lib ms s))"
    by (cases "getUserData lib ms s") (simp add: GetServerName_def Let_def)
  have d: "fst (ensureMinimalNetworkSetup ms s) = None
        \<and> fst (doGet lib ms (metadataHost ms @ userdataPath ms) (snd (ensureMinimalNetworkSetup ms s))) = Inl err \<longrightarrow>
        fst (GetServerName lib ms s) =
          Inl (WrapError (WrapError err (''Getting user data from url '' @ metadataHost ms @ userdataPath ms))
                 ''Getting user data'')"
    by (cases "ensureMinimalNetworkSetup ms s";
        cases "doGet lib ms (metadataHost ms @ userdataPath ms) (snd (ensureMinimalNetworkSetup ms s))")
       (simp add: GetServerName_def getUserData_def Let_def)
  have e: "fst (ensureMinimalNetworkSetup ms s) = None
        \<and> fst (doGet lib ms (metadataHost ms @ userdataPath ms) (snd (ensureMinimalNetworkSetup ms s))) = Inr respBytes
        \<and> json_Unmarshal lib respBytes = Inl err \<longrightarrow>
        fst (GetServerName lib ms s) =
          Inl (WrapError (WrapError err (''Unmarshalling user data '' @ [CHR 0x27] @ respBytes @ [CHR 0x27]))
                 ''Getting user data'')"
    by (cases "ensureMinimalNetworkSetup ms s";
        cases "doGet lib ms (metadataHost ms @ userdataPath ms) (snd (ensureMinimalNetworkSetup ms s))")
       (simp add: GetServerName_def getUserData_def Let_def)
  show ?thesis
    using never a b c d e by blast
qed

theorem GetServerName_empty_name_is_error_witness:
  "fst (getUserData fakeLib fakeService (start plainHost))
       = Inr \<lparr>Server_Name = [], Registry_Endpoint = ''http://registry'', DNS_Nameserver = [], Networks = Map.empty\<rparr>
   \<and> fst (GetServerName fakeLib fakeService (start plainHost)) = Inl (Error ''Empty server name'')
   \<and> fst (getUserData fakeLib fakeService (start fakeHost))
       = Inr \<lparr>Server_Name = ''vm-1'', Registry_Endpoint = ''http://registry'',
              DNS_Nameserver = [''8.8.8.8''], Networks = minimalNetworks\<rparr>
   \<and> fst (GetServerName fakeLib fakeService (start fakeHost)) = Inr ''vm-1''
   \<and> fst (ensureMinimalNetworkSetup fakeService (start downHost)) = None
   \<and> fst (doGet fakeLib fakeService (metadataHost fakeService @ userdataPath fakeService)
        (snd (ensureMinimalNetworkSetup fakeService (start downHost)))) = Inl (Error ''connection refused'')
   \<and> fst (GetServerName fakeLib fakeService (start downHost))
       = Inl (WrapError (WrapError (Error ''connection refused'') ''Getting user data from url http://md/user-data'')
                ''Getting user data'')
   \<and> fst (ensureMinimalNetworkSetup fakeService (start garbageHost)) = None
   \<and> fst (doGet fakeLib fakeService (metadataHost fakeService @ userdataPath fakeService)
        (snd (ensureMinimalNetworkSetup fakeService (start garbageHost)))) = Inr ''<html>''
   \<and> json_Unmarshal fakeLib ''<html>'' = Inl (Error ''invalid character'')
   \<and> fst (GetServerName fakeLib fakeService (start garbageHost))
       = Inl (WrapError (WrapError (Error ''invalid character'') (''Unmarshalling user data '' @ [CHR 0x27] @ ''<html>'' @ [CHR 0x27]))
                ''Getting user data'')"
proof -
  have p: "fst (getUserData fakeLib fakeService (start plainHost))
       = Inr \<lparr>Server_Name = [], Registry_Endpoint = ''http://registry'', DNS_Nameserver = [], Networks = Map.empty\<rparr>"
    by (simp add: fake_defs host_defs)
  have q: "fst (getUserData fakeLib fakeService (start fakeHost))
       = Inr \<lparr>Server_Name = ''vm-1'', Registry_Endpoint = ''http://registry'',
              DNS_Nameserver = [''8.8.8.8''], Networks = minimalNetworks\<rparr>"
    by (simp add: fake_defs host_defs)
  have d1: "fst (ensureMinimalNetworkSetup fakeService (start downHost)) = None"
    by (simp add: fake_defs host_defs)
  have d2: "fst (doGet fakeLib fakeService (metadataHost fakeService @ userdataPath fakeService)
        (snd (ensureMinimalNetworkSetup fakeService (start downHost)))) = Inl (Error ''connection refused'')"
    by (simp add: fake_defs host_defs)
  have g1: "fst (ensureMinimalNetworkSetup fakeService (start garbageHost)) = None"
    by (simp add: fake_defs host_defs)
  have g2: "fst (doGet fakeLib fakeService (metadataHost fakeService @ userdataPath fakeService)
        (snd (ensureMinimalNetworkSetup fakeService (start garbageHost)))) = Inr ''<html>''"
    by (simp add: fake_defs host_defs)
  have g3: "json_Unmarshal fakeLib ''<html>'' = Inl (Error ''invalid character'')"
    by (simp add: fake_defs)
  have u: "metadataHost fakeService @ userdataPath fakeService = ''http://md/user-data''"
    by (simp add: fakeService_def)
  note t = GetServerName_empty_name_is_error
  have r1: "fst (GetServerName fakeLib fakeService (start plainHost)) = Inl (Error ''Empty server name'')"
    using p t [where lib = fakeLib and ms = fakeService and s = "start plainHost"
        and userData = "\<lparr>Server_Name = [], Registry_Endpoint = ''http://registry'', DNS_Nameserver = [], Networks = Map.empty\<rparr>"]
    by simp
  have r2: "fst (GetServerName fakeLib fakeService (start fakeHost)) = Inr ''vm-1''"
    using q t [where lib = fakeLib and ms = fakeService and s = "start fakeHost"
        and userData = "\<lparr>Server_Name = ''vm-1'', Registry_Endpoint = ''http://registry'',
              DNS_Nameserver = [''8.8.8.8''], Networks = minimalNetworks\<rparr>"]
    by simp
  have r3: "fst (GetServerName fakeLib fakeService (start downHost))
       = Inl (WrapError (WrapError (Error ''connection refused'') ''Getting user data from url http://md/user-data'')
                ''Getting user data'')"
    using d1 d2 t [where lib = fakeLib and ms = fakeService and s = "start downHost"
        and err = "Error ''connection refused''"]
    by (simp add: u)
  have r4: "fst (GetServerName fakeLib fakeService (start garbageHost))
       = Inl (WrapError (WrapError (Error ''invalid character'') (''Unmarshalling user data '' @ [CHR 0x27] @ ''<html>'' @ [CHR 0x27]))
                ''Getting user data'')"
    using g1 g2 g3 t [where lib = fakeLib and ms = fakeService and s = "start garbageHost"
        and err = "Error ''invalid character''" and respBytes = "''<html>''"]
    by (simp add: u)
  show ?thesis
    using p q d1 d2 g1 g2 g3 r1 r2 r3 r4 by blast
qed


text \<open>
  C8. Given a parsed document: without nameservers \<^verbatim>\<open>GetRegistryEndpoint\<close> returns
  the endpoint exactly as the document has it; with nameservers it returns what
  \<^verbatim>\<open>LookupHost\<close> of the nameservers and the endpoint gives (a lookup failure wrapped).
  The lookups made by a call are exactly: none when \<^verbatim>\<open>getUserData\<close> fails or the
  nameserver list is empty, and the one lookup otherwise.
\<close>

theorem GetRegistryEndpoint_lookup_iff_nameservers:
  "(fst (getUserData lib ms s) = Inr userData \<and> DNS_Nameserver userData = [] \<longrightarrow>
      GetRegistryEndpoint lib ms s = (Inr (Registry_Endpoint userData), snd (getUserData lib ms s)))
   \<and> (fst (getUserData lib ms s) = Inr userData \<and> DNS_Nameserver userData \<noteq> [] \<longrightarrow>
      GetRegistryEndpoint lib ms s =
        ((case LookupHost (resolver ms) (DNS_Nameserver userData) (Registry_Endpoint userData)
                 (world (snd (getUserData lib ms s))) of
            Inl err \<Rightarrow> Inl (WrapError err ''Resolving registry endpoint'')
          | Inr resolved \<Rightarrow> Inr resolved),
         emit (EvLookupHost (DNS_Nameserver userData) (Registry_Endpoint userData)) (snd (getUserData lib ms s))))
   \<and> filter isLookup (since s (snd (GetRegistryEndpoint lib ms s))) =
       (case fst (getUserData lib ms s) of
          Inl err \<Rightarrow> []
        | Inr doc \<Rightarrow>
            if DNS_Nameserver doc = [] then []
            else [EvLookupHost (DNS_Nameserver doc) (Registry_Endpoint doc)])"
proof -
  obtain r s1 where g: "getUserData lib ms s = (r, s1)"
    by (cases "getUserData lib ms s")
  obtain evs where tr: "trace s1 = trace s @ EvGetConfiguredNetworkInterfaces # evs" "filter isLookup evs = []"
    using getUserData_trace [of lib ms s] g by auto
  have a: "fst (getUserData lib ms s) = Inr userData \<and> DNS_Nameserver userData = [] \<longrightarrow>
      GetRegistryEndpoint lib ms s = (Inr (Registry_Endpoint userData), snd (getUserData lib ms s))"
    by (simp add: g GetRegistryEndpoint_def Let_def)
  have b: "fst (getUserData lib ms s) = Inr userData \<and> DNS_Nameserver userData \<noteq> [] \<longrightarrow>
      GetRegistryEndpoint lib ms s =
        ((case LookupHost (resolver ms) (DNS_Nameserver userData) (Registry_Endpoint userData)
                 (world (snd (getUserData lib ms s))) of
            Inl err \<Rightarrow> Inl (WrapError err ''Resolving registry endpoint'')
          | Inr resolved \<Rightarrow> Inr resolved),
         emit (EvLookupHost (DNS_Nameserver userData) (Registry_Endpoint userData)) (snd (getUserData lib ms s)))"
    by (simp add: g GetRegistryEndpoint_def Let_def emit_def split: sum.splits)
  have c: "filter isLookup (since s (snd (GetRegistryEndpoint lib ms s))) =
       (case fst (getUserData lib ms s) of
          Inl err \<Rightarrow> []
        | Inr doc \<Rightarrow>
            if DNS_Nameserver doc = [] then []
            else [EvLookupHost (DNS_Nameserver doc) (Registry_Endpoint doc)])"
  proof (cases r)
    case (Inl err)
    then show ?thesis
      using tr by (simp add: g GetRegistryEndpoint_def since_def isLookup_def)
  next
    case (Inr doc)
    then show ?thesis
      using tr by (simp add: g GetRegistryEndpoint_def Let_def since_def isLookup_def emit_def split: sum.splits)
  qed
  show ?thesis
    using a b c by blast
qed

theorem GetRegistryEndpoint_lookup_iff_nameservers_witness:
  "fst (getUserData fakeLib fakeService (start plainHost))
       = Inr \<lparr>Server_Name = [], Registry_Endpoint = ''http://registry'', DNS_Nameserver = [], Networks = Map.empty\<rparr>
   \<and> fst (GetRegistryEndpoint fakeLib fakeService (start plainHost)) = Inr ''http://registry''
   \<and> filter isLookup (since (start plainHost) (snd (GetRegistryEndpoint fakeLib fakeService (start plainHost)))) = []
   \<and> fst (getUserData fakeLib fakeService (start fakeHost))
       = Inr \<lparr>Server_Name = ''vm-1'', Registry_Endpoint = ''http://registry'',
              DNS_Nameserver = [''8.8.8.8''], Networks = minimalNetworks\<rparr>
   \<and> fst (GetRegistryEndpoint fakeLib fakeService (start fakeHost)) = Inr ''http://10.0.0.7''
   \<and> filter isLookup (since (start fakeHost) (snd (GetRegistryEndpoint fakeLib fakeService (start fakeHost))))
       = [EvLookupHost [''8.8.8.8''] ''http://registry'']"
proof -
  have p: "fst (getUserData fakeLib fakeService (start plainHost))
       = Inr \<lparr>Server_Name = [], Registry_Endpoint = ''http://registry'', DNS_Nameserver = [], Networks = Map.empty\<rparr>"
    by (simp add: fake_defs host_defs)
  have q: "fst (getUserData fakeLib fakeService (start fakeHost))
       = Inr \<lparr>Server_Name = ''vm-1'', Registry_Endpoint = ''http://registry'',
              DNS_Nameserver = [''8.8.8.8''], Networks = minimalNetworks\<rparr>"
    by (simp add: fake_defs host_defs)
  note t1 = GetRegistryEndpoint_lookup_iff_nameservers [where lib = fakeLib and ms = fakeService
        and s = "start plainHost"
        and userData = "\<lparr>Server_Name = [], Registry_Endpoint = ''http://registry'', DNS_Nameserver = [], Networks = Map.empty\<rparr>"]
  note t2 = GetRegistryEndpoint_lookup_iff_nameservers [where lib = fakeLib and ms = fakeService
        and s = "start fakeHost"
        and userData = "\<lparr>Server_Name = ''vm-1'', Registry_Endpoint = ''http://registry'',
              DNS_Nameserver = [''8.8.8.8''], Networks = minimalNetworks\<rparr>"]
  have r1: "fst (GetRegistryEndpoint fakeLib fakeService (start plainHost)) = Inr ''http://registry''"
    using p t1 [THEN conjunct1] by simp
  have r2: "filter isLookup (since (start plainHost) (snd (GetRegistryEndpoint fakeLib fakeService (start plainHost)))) = []"
    using p t1 [THEN conjunct2, THEN conjunct2] by simp
  have r3: "fst (GetRegistryEndpoint fakeLib fakeService (start fakeHost)) = Inr ''http://10.0.0.7''"
    using q t2 [THEN conjunct2, THEN conjunct1] by (simp add: fakeService_def fakeResolver_def)
  have r4: "filter isLookup (since (start fakeHost) (snd (GetRegistryEndpoint fakeLib fakeService (start fakeHost))))
       = [EvLookupHost [''8.8.8.8''] ''http://registry'']"
    using q t2 [THEN conjunct2, THEN conjunct2] by simp
  show ?thesis
    using p q r1 r2 r3 r4 by blast
qed

section \<open>Cache hits\<close>

lemma doGet_hit:
  "ReadFile (GetFs (platform ms)) (cachePathOf lib url) (world s) = Inr cached \<Longrightarrow>
   doGet lib ms url s = (Inr cached, emit (EvReadFile (cachePathOf lib url)) s)"
  by (simp add: doGet_def emit_def Let_def)

lemma doGet_hit_repeat:
  "ReadFile (GetFs (platform ms)) (cachePathOf lib url) (world s) = Inr cached \<Longrightarrow>
   world (((\<lambda>t. snd (doGet lib ms url t)) ^^ n) s) = world s"
  by (induction n) (simp_all add: doGet_hit emit_def)

text \<open>
  C1. For every URL: if reading the cache file of the URL's hash succeeds, \<^verbatim>\<open>doGet\<close>
  returns exactly the bytes read; the only call it makes is that read, so there is
  no HTTP request and no write of the cache entry, and the host is left as it was.
  Nothing invalidates or refreshes the entry: after any number \<open>n\<close> of further
  \<^verbatim>\<open>doGet\<close> calls for the URL the host is still unchanged and the call still returns
  the same bytes.
\<close>

theorem doGet_cache_hit:
  assumes hit: "ReadFile (GetFs (platform ms)) (cachePathOf lib url) (world s) = Inr cached"
  shows "fst (doGet lib ms url s) = Inr cached
       \<and> since s (snd (doGet lib ms url s)) = [EvReadFile (cachePathOf lib url)]
       \<and> filter isHTTP (since s (snd (doGet lib ms url s))) = []
       \<and> filter isWrite (since s (snd (doGet lib ms url s))) = []
       \<and> world (snd (doGet lib ms url s)) = world s
       \<and> world (((\<lambda>t. snd (doGet lib ms url t)) ^^ n) s) = world s
       \<and> fst (doGet lib ms url (((\<lambda>t. snd (doGet lib ms url t)) ^^ n) s)) = Inr cached"
proof -
  have one: "doGet lib ms url s = (Inr cached, emit (EvReadFile (cachePathOf lib url)) s)"
    using hit by (rule doGet_hit)
  have w: "world (((\<lambda>t. snd (doGet lib ms url t)) ^^ n) s) = world s"
    using hit by (rule doGet_hit_repeat)
  have again: "fst (doGet lib ms url (((\<lambda>t. snd (doGet lib ms url t)) ^^ n) s)) = Inr cached"
    by (rule arg_cong [where f = fst, OF doGet_hit, simplified]) (simp add: w hit)
  show ?thesis
    using w again by (simp add: one since_emit isHTTP_def isWrite_def) (simp add: emit_def)
qed

theorem doGet_cache_hit_witness:
  "ReadFile (GetFs (platform fakeService)) (cachePathOf fakeLib ''http://md/ssh-keys'') (world (start staleHost)) = Inr ''ssh-rsa OLD''
   \<and> fst (doGet fakeLib fakeService ''http://md/ssh-keys'' (start staleHost)) = Inr ''ssh-rsa OLD''
   \<and> since (start staleHost) (snd (doGet fakeLib fakeService ''http://md/ssh-keys'' (start staleHost)))
       = [EvReadFile ''/var/vcap/bosh/http-metadata-service-http://md/ssh-keys'']
   \<and> served staleHost ''http://md/ssh-keys'' = Some ''ssh-rsa AAAA''
   \<and> fst (doGet fakeLib fakeService ''http://md/ssh-keys''
        (((\<lambda>t. snd (doGet fakeLib fakeService ''http://md/ssh-keys'' t)) ^^ 3) (start staleHost))) = Inr ''ssh-rsa OLD''"
proof -
  have hit: "ReadFile (GetFs (platform fakeService)) (cachePathOf fakeLib ''http://md/ssh-keys'') (world (start staleHost)) = Inr ''ssh-rsa OLD''"
    by (simp add: fakeService_def fakePlatform_def fakeFs_def cachePathOf_def fakeLib_def start_def staleHost_def)
  have path: "cachePathOf fakeLib ''http://md/ssh-keys'' = ''/var/vcap/bosh/http-metadata-service-http://md/ssh-keys''"
    by (simp add: cachePathOf_def fakeLib_def)
  have srv: "served staleHost ''http://md/ssh-keys'' = Some ''ssh-rsa AAAA''"
    by (simp add: staleHost_def fakeHost_def)
  show ?thesis
    using hit srv doGet_cache_hit [OF hit, of 3] by (simp add: path)
qed

section \<open>Cache misses\<close>

text \<open>
  C4. On a cache miss, when the request is built, the retrying GET (at most 10
  attempts) answers and the body is read: \<^verbatim>\<open>doGet\<close> writes the body to the cache
  path, the write being its last call on the file system before it returns. If the
  write succeeds it returns the body, and the host is the one the write left; on a
  file system where a successful write is read back, reading the cache path then
  gives the very bytes returned. If the write fails it returns that failure wrapped
  as \<open>Caching response body\<close> instead of the bytes.
\<close>

theorem doGet_cache_miss_then_cached:
  assumes miss: "ReadFile (GetFs (platform ms)) (cachePathOf lib url) (world s) = Inl rerr"
    and req: "http_NewRequest lib ''GET'' url = Inr req0"
    and get: "RetryClient_Do lib 10 (retryDelay ms) (fold Header_Add (metadataHeaders ms) req0) (world s) = (Inr resp, w1)"
    and body: "Body_ReadAll resp = Inr respBytes"
  shows "(case WriteFile (GetFs (platform ms)) (cachePathOf lib url) respBytes w1 of
            (None, w2) \<Rightarrow> fst (doGet lib ms url s) = Inr respBytes \<and> world (snd (doGet lib ms url s)) = w2
          | (Some werr, w2) \<Rightarrow>
              fst (doGet lib ms url s) = Inl (WrapError werr ''Caching response body'')
              \<and> world (snd (doGet lib ms url s)) = w2)
       \<and> since s (snd (doGet lib ms url s))
           = [EvReadFile (cachePathOf lib url), EvHTTPDo (fold Header_Add (metadataHeaders ms) req0),
              EvBodyReadAll, EvWriteFile (cachePathOf lib url) respBytes, EvBodyClose]
       \<and> ((\<forall>path bytes w w'. WriteFile (GetFs (platform ms)) path bytes w = (None, w')
              \<longrightarrow> ReadFile (GetFs (platform ms)) path w' = Inr bytes)
            \<and> fst (doGet lib ms url s) = Inr returned
            \<longrightarrow> returned = respBytes
              \<and> ReadFile (GetFs (platform ms)) (cachePathOf lib url) (world (snd (doGet lib ms url s))) = Inr returned)"
proof -
  obtain r w2 where wr: "WriteFile (GetFs (platform ms)) (cachePathOf lib url) respBytes w1 = (r, w2)"
    by (cases "WriteFile (GetFs (platform ms)) (cachePathOf lib url) respBytes w1")
  have run: "doGet lib ms url s =
      ((case r of None \<Rightarrow> Inr respBytes | Some werr \<Rightarrow> Inl (WrapError werr ''Caching response body'')),
       \<lparr>world = w2,
        trace = trace s @ [EvReadFile (cachePathOf lib url), EvHTTPDo (fold Header_Add (metadataHeaders ms) req0),
              EvBodyReadAll, EvWriteFile (cachePathOf lib url) respBytes, EvBodyClose]\<rparr>)"
    using miss req get body wr by (cases r) (simp_all add: doGet_def Let_def emit_def)
  have a: "(case WriteFile (GetFs (platform ms)) (cachePathOf lib url) respBytes w1 of
            (None, w2) \<Rightarrow> fst (doGet lib ms url s) = Inr respBytes \<and> world (snd (doGet lib ms url s)) = w2
          | (Some werr, w2) \<Rightarrow>
              fst (doGet lib ms url s) = Inl (WrapError werr ''Caching response body'')
              \<and> world (snd (doGet lib ms url s)) = w2)"
    by (cases r) (simp_all add: wr run)
  have b: "since s (snd (doGet lib ms url s))
           = [EvReadFile (cachePathOf lib url), EvHTTPDo (fold Header_Add (metadataHeaders ms) req0),
              EvBodyReadAll, EvWriteFile (cachePathOf lib url) respBytes, EvBodyClose]"
    by (simp add: run since_def)
  have c: "(\<forall>path bytes w w'. WriteFile (GetFs (platform ms)) path bytes w = (None, w')
              \<longrightarrow> ReadFile (GetFs (platform ms)) path w' = Inr bytes)
            \<and> fst (doGet lib ms url s) = Inr returned
            \<longrightarrow> returned = respBytes
              \<and> ReadFile (GetFs (platform ms)) (cachePathOf lib url) (world (snd (doGet lib ms url s))) = Inr returned"
  proof (intro impI, elim conjE)
    assume law: "\<forall>path bytes w w'. WriteFile (GetFs (platform ms)) path bytes w = (None, w')
              \<longrightarrow> ReadFile (GetFs (platform ms)) path w' = Inr bytes"
      and ret: "fst (doGet lib ms url s) = Inr returned"
    from ret have r: "r = None" and eq: "returned = respBytes"
      by (cases r; simp add: run)+
    from law wr r have "ReadFile (GetFs (platform ms)) (cachePathOf lib url) w2 = Inr respBytes"
      by blast
    then show "returned = respBytes
              \<and> ReadFile (GetFs (platform ms)) (cachePathOf lib url) (world (snd (doGet lib ms url s))) = Inr returned"
      by (simp add: eq run)
  qed
  show ?thesis
    using a b c by blast
qed


theorem doGet_cache_miss_then_cached_witness:
  "ReadFile (GetFs (platform fakeService)) (cachePathOf fakeLib ''http://md/ssh-keys'') (world (start fakeHost))
       = Inl (Error ''file not found'')
   \<and> http_NewRequest fakeLib ''GET'' ''http://md/ssh-keys''
       = Inr \<lparr>Method = ''GET'', URL = ''http://md/ssh-keys'', Header = []\<rparr>
   \<and> fst (doGet fakeLib fakeService ''http://md/ssh-keys'' (start fakeHost)) = Inr ''ssh-rsa AAAA''
   \<and> ReadFile (GetFs (platform fakeService)) (cachePathOf fakeLib ''http://md/ssh-keys'')
        (world (snd (doGet fakeLib fakeService ''http://md/ssh-keys'' (start fakeHost)))) = Inr ''ssh-rsa AAAA''
   \<and> since (start fakeHost) (snd (doGet fakeLib fakeService ''http://md/ssh-keys'' (start fakeHost)))
       = [EvReadFile ''/var/vcap/bosh/http-metadata-service-http://md/ssh-keys'',
          EvHTTPDo \<lparr>Method = ''GET'', URL = ''http://md/ssh-keys'', Header = [(''key'', ''value'')]\<rparr>,
          EvBodyReadAll,
          EvWriteFile ''/var/vcap/bosh/http-metadata-service-http://md/ssh-keys'' ''ssh-rsa AAAA'',
          EvBodyClose]
   \<and> ReadFile (GetFs (platform fakeService)) (cachePathOf fakeLib ''http://md/ssh-keys'') (world (start readOnlyHost))
       = Inl (Error ''file not found'')
   \<and> fst (doGet fakeLib fakeService ''http://md/ssh-keys'' (start readOnlyHost))
       = Inl (WrapError (Error ''read-only file system'') ''Caching response body'')"
proof -
  let ?url = "''http://md/ssh-keys''"
  let ?resp = "\<lparr>Body_ReadAll = Inr ''ssh-rsa AAAA'', Body_Close = None\<rparr>"
  have path: "cachePathOf fakeLib ?url = ''/var/vcap/bosh/http-metadata-service-http://md/ssh-keys''"
    by (simp add: cachePathOf_def fakeLib_def)
  have req: "http_NewRequest fakeLib ''GET'' ?url = Inr \<lparr>Method = ''GET'', URL = ?url, Header = []\<rparr>"
    by (simp add: fakeLib_def)
  have hdr: "fold Header_Add (metadataHeaders fakeService) \<lparr>Method = ''GET'', URL = ?url, Header = []\<rparr>
      = \<lparr>Method = ''GET'', URL = ?url, Header = [(''key'', ''value'')]\<rparr>"
    by (simp add: fakeService_def Header_Add_def)
  have body: "Body_ReadAll ?resp = Inr ''ssh-rsa AAAA''"
    by simp
  have law: "\<forall>path bytes w w'. WriteFile (GetFs (platform fakeService)) path bytes w = (None, w')
              \<longrightarrow> ReadFile (GetFs (platform fakeService)) path w' = Inr bytes"
    by (auto simp: fakeService_def fakePlatform_def fakeFs_def split: option.splits)
  have miss1: "ReadFile (GetFs (platform fakeService)) (cachePathOf fakeLib ?url) (world (start fakeHost))
      = Inl (Error ''file not found'')"
    by (simp add: fakeService_def fakePlatform_def fakeFs_def fakeHost_def start_def)
  have get1: "RetryClient_Do fakeLib 10 (retryDelay fakeService)
      (fold Header_Add (metadataHeaders fakeService) \<lparr>Method = ''GET'', URL = ?url, Header = []\<rparr>)
      (world (start fakeHost)) = (Inr ?resp, fakeHost)"
    by (simp add: hdr) (simp add: fakeLib_def fakeHost_def start_def)
  have miss2: "ReadFile (GetFs (platform fakeService)) (cachePathOf fakeLib ?url) (world (start readOnlyHost))
      = Inl (Error ''file not found'')"
    by (simp add: fakeService_def fakePlatform_def fakeFs_def fakeHost_def start_def readOnlyHost_def)
  have get2: "RetryClient_Do fakeLib 10 (retryDelay fakeService)
      (fold Header_Add (metadataHeaders fakeService) \<lparr>Method = ''GET'', URL = ?url, Header = []\<rparr>)
      (world (start readOnlyHost)) = (Inr ?resp, readOnlyHost)"
    by (simp add: hdr) (simp add: fakeLib_def fakeHost_def start_def readOnlyHost_def)
  have w1: "WriteFile (GetFs (platform fakeService)) (cachePathOf fakeLib ?url) ''ssh-rsa AAAA'' fakeHost
      = (None, fakeHost\<lparr>files := (files fakeHost)(cachePathOf fakeLib ?url \<mapsto> ''ssh-rsa AAAA'')\<rparr>)"
    by (simp add: fakeService_def fakePlatform_def fakeFs_def fakeHost_def)
  have w2: "WriteFile (GetFs (platform fakeService)) (cachePathOf fakeLib ?url) ''ssh-rsa AAAA'' readOnlyHost
      = (Some (Error ''read-only file system''), readOnlyHost)"
    by (simp add: fakeService_def fakePlatform_def fakeFs_def fakeHost_def readOnlyHost_def)
  note t1 = doGet_cache_miss_then_cached [OF miss1 req get1 body]
  note t2 = doGet_cache_miss_then_cached [OF miss2 req get2 body]
  have r1: "fst (doGet fakeLib fakeService ?url (start fakeHost)) = Inr ''ssh-rsa AAAA''"
    using t1 [THEN conjunct1] by (simp add: w1)
  have r2: "ReadFile (GetFs (platform fakeService)) (cachePathOf fakeLib ?url)
        (world (snd (doGet fakeLib fakeService ?url (start fakeHost)))) = Inr ''ssh-rsa AAAA''"
    using t1 [where returned = "''ssh-rsa AAAA''", THEN conjunct2, THEN conjunct2] law r1 by blast
  have r3: "since (start fakeHost) (snd (doGet fakeLib fakeService ?url (start fakeHost)))
       = [EvReadFile ''/var/vcap/bosh/http-metadata-service-http://md/ssh-keys'',
          EvHTTPDo \<lparr>Method = ''GET'', URL = ?url, Header = [(''key'', ''value'')]\<rparr>,
          EvBodyReadAll,
          EvWriteFile ''/var/vcap/bosh/http-metadata-service-http://md/ssh-keys'' ''ssh-rsa AAAA'',
          EvBodyClose]"
    using t1 [THEN conjunct2, THEN conjunct1] by (simp add: hdr path)
  have r4: "fst (doGet fakeLib fakeService ?url (start readOnlyHost))
       = Inl (WrapError (Error ''read-only file system'') ''Caching response body'')"
    using t2 [THEN conjunct1] by (simp add: w2)
  show ?thesis
    using miss1 req r1 r2 r3 miss2 r4 by blast
qed

section \<open>Restarting the network\<close>

text \<open>The write stage touches file bodies only, the symlink stage symlink targets only.\<close>

lemma writeArtifacts_frame:
  "writeArtifacts arts ch h = (e, ch', h') \<Longrightarrow> h' = h\<lparr>fileContents := fileContents h'\<rparr>"
proof (induction arts arbitrary: ch h)
  case Nil
  then show ?case by simp
next
  case (Cons a arts)
  obtain p b where a: "a = (p, b)" by (cases a)
  show ?case
  proof (cases "WriteFileErrors h p")
    case (Some err)
    then show ?thesis using Cons.prems a by (simp add: convergeFileContents_def)
  next
    case None
    let ?h1 = "h\<lparr>fileContents := (fileContents h)(p \<mapsto> b)\<rparr>"
    from Cons.prems a None
    have "writeArtifacts arts (ch \<or> fileContents h p \<noteq> Some b) ?h1 = (e, ch', h')"
      by (simp add: convergeFileContents_def)
    from Cons.IH [OF this] show ?thesis by simp
  qed
qed

lemma writeArtifacts_changed:
  "writeArtifacts arts ch h = (None, ch', h') \<Longrightarrow>
   ch \<or> (\<exists>a \<in> set arts. fileContents h (fst a) \<noteq> Some (snd a)) \<Longrightarrow> ch'"
proof (induction arts arbitrary: ch h)
  case Nil
  then show ?case by simp
next
  case (Cons a arts)
  obtain p b where a: "a = (p, b)" by (cases a)
  from Cons.prems(1) a have ok: "WriteFileErrors h p = None"
    by (cases "WriteFileErrors h p") (simp_all add: convergeFileContents_def)
  let ?h1 = "h\<lparr>fileContents := (fileContents h)(p \<mapsto> b)\<rparr>"
  from Cons.prems(1) a ok
  have rest: "writeArtifacts arts (ch \<or> fileContents h p \<noteq> Some b) ?h1 = (None, ch', h')"
    by (simp add: convergeFileContents_def)
  show ?case
  proof (cases "ch \<or> fileContents h p \<noteq> Some b")
    case True
    then show ?thesis using Cons.IH [OF rest] by simp
  next
    case False
    then have same: "fileContents ?h1 = fileContents h"
      by (auto simp: fun_eq_iff)
    from False Cons.prems(2) a
    have "\<exists>a \<in> set arts. fileContents h (fst a) \<noteq> Some (snd a)"
      by auto
    then show ?thesis using Cons.IH [OF rest] same by simp
  qed
qed




lemma writeSymlinks_frame:
  "writeSymlinks cs h = (e, h') \<Longrightarrow> h' = h\<lparr>symlinkTargets := symlinkTargets h'\<rparr>"
proof (induction cs arbitrary: h)
  case Nil
  then show ?case by simp
next
  case (Cons c cs)
  show ?case
  proof (cases "SymlinkErrors h (dhclientSymlinkPath (CfgName c))")
    case (Some err)
    then show ?thesis using Cons.prems by (simp add: Let_def)
  next
    case None
    let ?h1 = "h\<lparr>symlinkTargets := (symlinkTargets h)(dhclientSymlinkPath (CfgName c) \<mapsto> dhclientConfPath)\<rparr>"
    from Cons.prems None have "writeSymlinks cs ?h1 = (e, h')"
      by (simp add: Let_def)
    from Cons.IH [OF this] show ?thesis by simp
  qed
qed





lemma writeArtifacts_fields:
  assumes "writeArtifacts arts ch h = (e, ch', h')"
  shows "deviceTree h' = deviceTree h" and "WriteFileErrors h' = WriteFileErrors h"
    and "SymlinkErrors h' = SymlinkErrors h" and "RunCommands h' = RunCommands h"
    and "restartError h' = restartError h"
proof -
  note f = writeArtifacts_frame [OF assms]
  show "deviceTree h' = deviceTree h"
    using arg_cong [OF f, of deviceTree] by simp
  show "WriteFileErrors h' = WriteFileErrors h"
    using arg_cong [OF f, of WriteFileErrors] by simp
  show "SymlinkErrors h' = SymlinkErrors h"
    using arg_cong [OF f, of SymlinkErrors] by simp
  show "RunCommands h' = RunCommands h"
    using arg_cong [OF f, of RunCommands] by simp
  show "restartError h' = restartError h"
    using arg_cong [OF f, of restartError] by simp
qed

lemma writeSymlinks_fields:
  assumes "writeSymlinks cs h = (e, h')"
  shows "deviceTree h' = deviceTree h" and "WriteFileErrors h' = WriteFileErrors h"
    and "SymlinkErrors h' = SymlinkErrors h" and "RunCommands h' = RunCommands h"
    and "restartError h' = restartError h" and "fileContents h' = fileContents h"
proof -
  note f = writeSymlinks_frame [OF assms]
  show "deviceTree h' = deviceTree h"
    using arg_cong [OF f, of deviceTree] by simp
  show "WriteFileErrors h' = WriteFileErrors h"
    using arg_cong [OF f, of WriteFileErrors] by simp
  show "SymlinkErrors h' = SymlinkErrors h"
    using arg_cong [OF f, of SymlinkErrors] by simp
  show "RunCommands h' = RunCommands h"
    using arg_cong [OF f, of RunCommands] by simp
  show "restartError h' = restartError h"
    using arg_cong [OF f, of restartError] by simp
  show "fileContents h' = fileContents h"
    using arg_cong [OF f, of fileContents] by simp
qed



lemma writeArtifacts_succeeds:
  "\<forall>a \<in> set arts. WriteFileErrors h (fst a) = None \<Longrightarrow> fst (writeArtifacts arts ch h) = None"
proof (induction arts arbitrary: ch h)
  case Nil
  then show ?case by simp
next
  case (Cons a arts)
  obtain p b where a: "a = (p, b)" by (cases a)
  let ?h1 = "h\<lparr>fileContents := (fileContents h)(p \<mapsto> b)\<rparr>"
  have "\<forall>a \<in> set arts. WriteFileErrors ?h1 (fst a) = None"
    using Cons.prems by simp
  from Cons.IH [OF this] show ?case
    using Cons.prems a by (simp add: convergeFileContents_def)
qed

lemma writeSymlinks_succeeds:
  "\<forall>c \<in> set cs. SymlinkErrors h (dhclientSymlinkPath (CfgName c)) = None \<Longrightarrow> fst (writeSymlinks cs h) = None"
proof (induction cs arbitrary: h)
  case Nil
  then show ?case by simp
next
  case (Cons c cs)
  let ?h1 = "h\<lparr>symlinkTargets := (symlinkTargets h)(dhclientSymlinkPath (CfgName c) \<mapsto> dhclientConfPath)\<rparr>"
  have "\<forall>c \<in> set cs. SymlinkErrors ?h1 (dhclientSymlinkPath (CfgName c)) = None"
    using Cons.prems by simp
  from Cons.IH [OF this] show ?case
    using Cons.prems by (simp add: Let_def)
qed

lemmas net_defs =
  centosSetupNetworking_def interfaceConfigurations_def renderedArtifacts_def convergeFileContents_def
  restartNetwork_def broadcastMACAddresses_def bindingOf_def isDynamic_def nonVipNetworks_def
  ifcfgPath_def dhclientConfPath_def dhclientSymlinkPath_def restartCommand_def
  fakeNet_def fakeNetworks_def fakeNethost_def dhcpNetwork_def staticNetwork_def zeroNetwork_def
  staticConfig_def dhcpConfig_def writtenFiles_def convergedNethost_def staleIfcfgNethost_def
  failingNethost_def Let_def




text \<open>
  The manager's test suite, on the double: no restart when the ifcfg files and the
  DHCP client body are on disk already, although the symlink is new; one restart
  when only the static interface's file is there; bindings for the static interface
  first.
\<close>

lemma test_no_restart_when_files_unchanged:
  "fst (centosSetupNetworking fakeNet fakeNetworks convergedNethost) = None
   \<and> symlinkTargets convergedNethost ''/etc/dhcp/dhclient-ethdhcp.conf'' = None
   \<and> symlinkTargets (snd (centosSetupNetworking fakeNet fakeNetworks convergedNethost)) ''/etc/dhcp/dhclient-ethdhcp.conf''
       = Some ''/etc/dhcp/dhclient.conf''
   \<and> RunCommands (snd (centosSetupNetworking fakeNet fakeNetworks convergedNethost)) = []"
  by (simp add: net_defs)

lemma test_restart_when_dhclient_conf_changes:
  "RunCommands (snd (centosSetupNetworking fakeNet fakeNetworks
      (fakeNethost\<lparr>fileContents := [''/etc/sysconfig/network-scripts/ifcfg-ethstatic'' \<mapsto> ''DEVICE=ethstatic static'']\<rparr>)))
     = [[''service'', ''network'', ''restart'']]"
  by (simp add: net_defs)

lemma test_broadcasts:
  "BroadcastMACAddresses (snd (centosSetupNetworking fakeNet fakeNetworks fakeNethost))
     = [[SimpleInterfaceAddress ''ethstatic'' ''1.2.3.4'', ResolvingInterfaceAddress ''ethdhcp'']]"
  by (simp add: net_defs)




text \<open>
  The claim C6 as stated, for every call in which a rendered artifact differs from
  what is on disk: on the host where writing the second ifcfg file fails, the first
  ifcfg file is new (it does not exist yet), the call aborts with the write error,
  and the restart command is not invoked.
\<close>

theorem SetupNetworking_write_failure_counterexample:
  "interfaceConfigurations fakeNet fakeNetworks failingNethost = Inr [staticConfig, dhcpConfig]
   \<and> (ifcfgPath ''ethstatic'', ''DEVICE=ethstatic static'') \<in> set (renderedArtifacts fakeNet [staticConfig, dhcpConfig])
   \<and> fileContents failingNethost (ifcfgPath ''ethstatic'') = None
   \<and> fst (centosSetupNetworking fakeNet fakeNetworks failingNethost)
       = Some (WrapError (Error ''fs-write-file-error'') ''Writing to /etc/sysconfig/network-scripts/ifcfg-ethdhcp'')
   \<and> RunCommands (snd (centosSetupNetworking fakeNet fakeNetworks failingNethost)) = []"
  by (simp add: net_defs)

text \<open>
  C6, amended. For every call whose writes do not fail (no write error on a rendered
  file, no symlink error): if at least one rendered file, an ifcfg file or the shared
  DHCP client body, differs from what is on disk at its path, the file not existing
  included, the restart command is invoked exactly once, however many other files
  are unchanged.
\<close>

theorem SetupNetworking_restarts_once_on_change:
  assumes cfg: "interfaceConfigurations net networks h = Inr configs"
    and differs: "(path, body) \<in> set (renderedArtifacts net configs)" "fileContents h path \<noteq> Some body"
    and writes: "\<forall>a \<in> set (renderedArtifacts net configs). WriteFileErrors h (fst a) = None"
    and links: "\<forall>c \<in> set configs. SymlinkErrors h (dhclientSymlinkPath (CfgName c)) = None"
  shows "RunCommands (snd (centosSetupNetworking net networks h)) = RunCommands h @ [restartCommand]"
proof -
  let ?arts = "renderedArtifacts net configs"
  let ?dyn = "filter isDynamic configs"
  obtain e changed ha where wa: "writeArtifacts ?arts False h = (e, changed, ha)"
    by (cases "writeArtifacts ?arts False h")
  have e: "e = None"
    using writeArtifacts_succeeds [OF writes, of False] wa by simp
  have changed: changed
  proof (rule writeArtifacts_changed)
    show "writeArtifacts ?arts False h = (None, changed, ha)"
      using wa e by simp
    show "False \<or> (\<exists>a \<in> set ?arts. fileContents h (fst a) \<noteq> Some (snd a))"
      using differs by force
  qed
  note fa = writeArtifacts_fields [OF wa]
  obtain e' hb where ws: "writeSymlinks ?dyn ha = (e', hb)"
    by (cases "writeSymlinks ?dyn ha")
  have "\<forall>c \<in> set ?dyn. SymlinkErrors ha (dhclientSymlinkPath (CfgName c)) = None"
    using links fa by simp
  then have "fst (writeSymlinks ?dyn ha) = None"
    by (rule writeSymlinks_succeeds)
  then have e': "e' = None"
    using ws by simp
  note fb = writeSymlinks_fields [OF ws]
  have "RunCommands (snd (centosSetupNetworking net networks h)) = RunCommands hb @ [restartCommand]"
    using cfg wa ws e e' changed
    by (cases "restartError hb")
       (simp_all add: centosSetupNetworking_def restartNetwork_def broadcastMACAddresses_def)
  then show ?thesis
    using fa fb by simp
qed

theorem SetupNetworking_restarts_once_on_change_witness:
  "interfaceConfigurations fakeNet fakeNetworks staleIfcfgNethost = Inr [staticConfig, dhcpConfig]
   \<and> (ifcfgPath ''ethstatic'', ''DEVICE=ethstatic static'') \<in> set (renderedArtifacts fakeNet [staticConfig, dhcpConfig])
   \<and> fileContents staleIfcfgNethost (ifcfgPath ''ethstatic'') = Some ''DEVICE=ethstatic dhcp''
   \<and> fileContents staleIfcfgNethost (ifcfgPath ''ethdhcp'') = Some ''DEVICE=ethdhcp dhcp''
   \<and> fileContents staleIfcfgNethost dhclientConfPath = Some ''# Generated by bosh-agent''
   \<and> RunCommands staleIfcfgNethost = []
   \<and> RunCommands (snd (centosSetupNetworking fakeNet fakeNetworks staleIfcfgNethost)) = [restartCommand]"
proof -
  have cfg: "interfaceConfigurations fakeNet fakeNetworks staleIfcfgNethost = Inr [staticConfig, dhcpConfig]"
    by (simp add: net_defs)
  have art: "(ifcfgPath ''ethstatic'', ''DEVICE=ethstatic static'') \<in> set (renderedArtifacts fakeNet [staticConfig, dhcpConfig])"
    by (simp add: net_defs)
  have old: "fileContents staleIfcfgNethost (ifcfgPath ''ethstatic'') = Some ''DEVICE=ethstatic dhcp''"
    by (simp add: net_defs)
  have differs: "fileContents staleIfcfgNethost (ifcfgPath ''ethstatic'') \<noteq> Some ''DEVICE=ethstatic static''"
    by (simp add: net_defs)
  have same: "fileContents staleIfcfgNethost (ifcfgPath ''ethdhcp'') = Some ''DEVICE=ethdhcp dhcp''"
      "fileContents staleIfcfgNethost dhclientConfPath = Some ''# Generated by bosh-agent''"
    by (simp_all add: net_defs)
  have writes: "\<forall>a \<in> set (renderedArtifacts fakeNet [staticConfig, dhcpConfig]). WriteFileErrors staleIfcfgNethost (fst a) = None"
    by (simp add: staleIfcfgNethost_def fakeNethost_def)
  have links: "\<forall>c \<in> set [staticConfig, dhcpConfig]. SymlinkErrors staleIfcfgNethost (dhclientSymlinkPath (CfgName c)) = None"
    by (simp add: staleIfcfgNethost_def fakeNethost_def)
  have none: "RunCommands staleIfcfgNethost = []"
    by (simp add: staleIfcfgNethost_def fakeNethost_def)
  show ?thesis
    using SetupNetworking_restarts_once_on_change [OF cfg art differs writes links] cfg art old same none
    by simp
qed

section \<open>Availability and loading\<close>

text \<open>
  C10. \<^verbatim>\<open>IsAvailable\<close> is true for every service value and \<^verbatim>\<open>Load\<close> returns no error
  for every service value; neither takes the host state, so neither reads it nor
  performs a call on a collaborator.
\<close>

theorem IsAvailable_Load_unconditional:
  "IsAvailable ms \<and> Load ms = None"
  by (simp add: IsAvailable_def Load_def)

end
